theory Spec2Isabelle
  imports Main
begin

section \<open>JavaScript values and control flow used by \<open>src/index.js\<close>\<close>

text \<open>
  An exception value. \<open>TypeError\<close> is what the JavaScript runtime itself raises when a
  property of \<open>undefined\<close> is read; it carries the name of that property (the wording of
  the runtime's message differs between versions and is left out). \<open>Failure\<close> is any
  error raised by one of the libraries the gateway calls (a failed introspection, a schema
  that cannot be wrapped, a failed merge, a port that cannot be bound), with a payload of
  the library's choosing.
\<close>

datatype 'e error = TypeError string | Failure 'e

text \<open>
  A settled promise. \<open>await\<close> turns it back into a completion: the value, or a throw of
  the rejection reason. \<open>async\<close> is the opposite direction: the body of an async function
  that returns settles its promise as fulfilled, one that throws settles it as rejected.
  \<open>undefined\<close> is \<open>None\<close> throughout.
\<close>

datatype ('e, 'a) promise = Fulfilled 'a | Rejected "'e error"

fun await :: "('e, 'a) promise \<Rightarrow> 'e error + 'a" where
  "await (Fulfilled v) = Inr v"
| "await (Rejected e) = Inl e"

fun async :: "'e error + 'a \<Rightarrow> ('e, 'a) promise" where
  "async (Inr v) = Fulfilled v"
| "async (Inl e) = Rejected e"

text \<open>
  \<open>Promise.all\<close>: fulfilled with all the values, in the order of the input, when every
  promise is fulfilled; rejected as soon as one is. The runtime rejects with the reason
  of the promise that is rejected first in time, the model with the leftmost one; the only
  caller discards the reason.
\<close>

fun promise_all :: "('e, 'a) promise list \<Rightarrow> ('e, 'a list) promise" where
  "promise_all [] = Fulfilled []"
| "promise_all (Rejected e # ps) = Rejected e"
| "promise_all (Fulfilled v # ps) =
     (case promise_all ps of
        Fulfilled vs \<Rightarrow> Fulfilled (v # vs)
      | Rejected e \<Rightarrow> Rejected e)"

text \<open>
  \<open>xs[i]\<close> on an array: \<open>undefined\<close> out of range. \<open>xs.map(f)\<close> calls
  \<open>f(element, index, array)\<close>; a callback with fewer parameters ignores the rest. Where
  the callback can throw, \<open>map\<close> returns the array of the results when every call
  returned, and throws what the first throwing call threw (\<open>all_returned\<close>, over the
  completions of the calls from left to right).
\<close>

definition js_nth :: "'a list \<Rightarrow> nat \<Rightarrow> 'a option" where
  "js_nth xs i = (if i < length xs then Some (xs ! i) else None)"

fun map_from :: "('a \<Rightarrow> nat \<Rightarrow> 'b) \<Rightarrow> nat \<Rightarrow> 'a list \<Rightarrow> 'b list" where
  "map_from f k [] = []"
| "map_from f k (x # xs) = f x k # map_from f (Suc k) xs"

definition map_js :: "('a \<Rightarrow> nat \<Rightarrow> 'a list \<Rightarrow> 'b) \<Rightarrow> 'a list \<Rightarrow> 'b list" where
  "map_js f xs = map_from (\<lambda>x i. f x i xs) 0 xs"

fun all_returned :: "('e error + 'a) list \<Rightarrow> 'e error + 'a list" where
  "all_returned [] = Inr []"
| "all_returned (Inl e # rs) = Inl e"
| "all_returned (Inr v # rs) =
     (case all_returned rs of
        Inr vs \<Rightarrow> Inr (v # vs)
      | Inl e \<Rightarrow> Inl e)"

section \<open>Objects of the libraries\<close>

text \<open>
  The gateway constructs two kinds of library objects with \<open>new\<close> and never looks inside
  them: \<open>new HttpLink({uri, fetch})\<close> (apollo-link-http) and \<open>new ApolloServer({schema,
  introspection, playground})\<close> (apollo-server). Each is a constructor applied to the
  options object it was given, so that two objects are equal exactly when they were built
  from equal options. \<open>fetch\<close> is the node-fetch module. The options object of
  \<open>makeRemoteExecutableSchema({schema, link})\<close> (graphql-tools) is a record too; the
  function itself is a parameter of the model, and it returns a proxy schema (of a type
  \<open>'p\<close> left open) or throws.
\<close>

datatype fetcher = NodeFetch

record http_link_options =
  uri :: "string option"
  fetch :: fetcher

datatype http_link = HttpLink http_link_options

record 's remote_options =
  schema :: 's
  link :: "http_link option"

record 'u server_options =
  schema :: 'u
  introspection :: bool
  playground :: bool

datatype 'u apollo_server = ApolloServer "'u server_options"

text \<open>The options object of \<open>info.mergeInfo.delegateToSchema\<close>.\<close>

record ('p, 'a, 'c, 'i) delegate_options =
  schema :: "'p option"
  operation :: string
  fieldName :: string
  args :: 'a
  context' :: 'c
  info :: 'i

text \<open>One entry of the resolver map: \<open>{fragment, resolve(_, args, context, info)}\<close>.\<close>

record ('x, 'a, 'c, 'i, 'r) link_resolver =
  fragment :: string
  resolve :: "'x \<Rightarrow> 'a \<Rightarrow> 'c \<Rightarrow> 'i \<Rightarrow> 'r"

text \<open>
  The argument of \<open>mergeSchemas\<close>. Its \<open>schemas\<close> array holds executable schemas and
  type-definition strings side by side.
\<close>

datatype 'p merge_input = Schema 'p | TypeDefs string

record ('p, 'x, 'a, 'c, 'i, 'r) merge_options =
  schemas :: "'p merge_input list"
  resolvers :: "string \<rightharpoonup> (string \<rightharpoonup> ('x, 'a, 'c, 'i, 'r) link_resolver)"

text \<open>
  What the process has done so far: the lines written by \<open>console.log\<close>, the errors written
  by \<open>console.error\<close>, the server object constructed, and the URL it listens at once
  \<open>server.listen\<close> is fulfilled.
\<close>

record ('e, 'u) process =
  stdout :: "string list"
  stderr :: "'e error list"
  server :: "'u apollo_server option"
  listening :: "string option"

definition initial :: "('e, 'u) process" where
  "initial = \<lparr>stdout = [], stderr = [], server = None, listening = None\<rparr>"

section \<open>The gateway\<close>

text \<open>
  \<open>REMOTE_SCHEMA_URIS\<close> (lines 15-19). \<open>env\<close> is \<open>process.env\<close> after dotenv has
  loaded; a variable that is not set reads as \<open>undefined\<close>.
\<close>

definition REMOTE_SCHEMA_URIS :: "(string \<rightharpoonup> string) \<Rightarrow> string option list" where
  "REMOTE_SCHEMA_URIS env =
     [env ''GRAPHQL_CART_SERVICE_URI'',
      env ''GRAPHQL_CHECKOUT_SERVICE_URI'',
      env ''GRAPHQL_USER_SERVICE_URI'']"

text \<open>
  \<open>createRemoteExecutableSchemas\<close> (lines 27-44). \<open>links\<close> and \<open>remoteSchemaPromises\<close> are
  its two local constants of these names. \<open>introspectSchema\<close> (graphql-tools) is a
  parameter: it receives the three arguments that \<open>links.map\<close> passes and returns a
  promise. \<open>makeRemoteExecutableSchema\<close> is a parameter that returns or throws. The
  \<open>try\<close> block spans the whole body: the inner \<open>case\<close> is the completion of that body
  (a rejection awaited, or a throw of \<open>makeRemoteExecutableSchema\<close> inside the \<open>return\<close>
  expression, completes it with \<open>Inl\<close>), the outer one the \<open>try\<close> and its \<open>catch\<close>. So
  the promise the function returns is always fulfilled: with the array, or with
  \<open>undefined\<close> after the \<open>catch\<close> has logged.
\<close>

definition links :: "string option list \<Rightarrow> http_link list" where
  "links uris = map (\<lambda>uri. HttpLink \<lparr>uri = uri, fetch = NodeFetch\<rparr>) uris"

definition remoteSchemaPromises ::
  "(http_link \<Rightarrow> nat \<Rightarrow> http_link list \<Rightarrow> ('e, 's) promise) \<Rightarrow> string option list
    \<Rightarrow> ('e, 's) promise list" where
  "remoteSchemaPromises introspectSchema uris = map_js introspectSchema (links uris)"

definition createRemoteExecutableSchemas ::
  "('s remote_options \<Rightarrow> 'e error + 'p)
    \<Rightarrow> (http_link \<Rightarrow> nat \<Rightarrow> http_link list \<Rightarrow> ('e, 's) promise) \<Rightarrow> string option list
    \<Rightarrow> ('e, 'u) process \<Rightarrow> ('e, 'p list option) promise \<times> ('e, 'u) process" where
  "createRemoteExecutableSchemas makeRemoteExecutableSchema introspectSchema uris st =
     (case
        (case await (promise_all (remoteSchemaPromises introspectSchema uris)) of
           Inl e \<Rightarrow> Inl e
         | Inr remoteSchemas \<Rightarrow>
             all_returned (map_js
               (\<lambda>schema index _. makeRemoteExecutableSchema
                  \<lparr>remote_options.schema = schema, link = js_nth (links uris) index\<rparr>)
               remoteSchemas))
      of
        Inr proxies \<Rightarrow> (Fulfilled (Some proxies), st)
      | Inl error \<Rightarrow>
          (Fulfilled None,
           st\<lparr>stdout := stdout st @ [''Error creating remote executable schemas'']\<rparr>))"

text \<open>\<open>linkTypeDefs\<close> (lines 50-55), a template literal of six lines.\<close>

definition linkTypeDefs :: string where
  "linkTypeDefs =
     [CHR 0x0A] @ ''  extend type User {'' @
     [CHR 0x0A] @ ''    cart: Cart!'' @
     [CHR 0x0A] @ ''    orders: [Order!]!'' @
     [CHR 0x0A] @ ''  }'' @
     [CHR 0x0A]"

text \<open>
  \<open>createLinkResolvers\<close> (lines 61-90). \<open>delegateToSchema info opts\<close> stands for the call
  \<open>info.mergeInfo.delegateToSchema(opts)\<close> of graphql-tools; what it returns (a promise of
  the remote result) is left open as \<open>'r\<close>. The parent object is the parameter \<open>_\<close>.
  The parameter \<open>schemas\<close> is written \<open>schemas'\<close>, the plain name being a field of the
  options of \<open>mergeSchemas\<close>.
\<close>

definition createLinkResolvers ::
  "('i \<Rightarrow> ('p, 'a, 'c, 'i) delegate_options \<Rightarrow> 'r) \<Rightarrow> 'p list
    \<Rightarrow> (string \<rightharpoonup> (string \<rightharpoonup> ('x, 'a, 'c, 'i, 'r) link_resolver))" where
  "createLinkResolvers delegateToSchema schemas' =
     [''User'' \<mapsto>
       [''cart'' \<mapsto>
          \<lparr>fragment = ''... on User { id }'',
           resolve = (\<lambda>_ args context info.
             delegateToSchema info
               \<lparr>delegate_options.schema = js_nth schemas' 0,
                operation = ''query'',
                fieldName = ''cartForCurrentUser'',
                args = args,
                context' = context,
                info = info\<rparr>)\<rparr>,
        ''orders'' \<mapsto>
          \<lparr>fragment = ''... on User { id }'',
           resolve = (\<lambda>_ args context info.
             delegateToSchema info
               \<lparr>delegate_options.schema = js_nth schemas' 1,
                operation = ''query'',
                fieldName = ''ordersForCurrentCustomer'',
                args = args,
                context' = context,
                info = info\<rparr>)\<rparr>]]"

text \<open>
  Reading the resolver map as the executor does: \<open>resolvers[typeName][fieldName]\<close>, and
  calling the \<open>resolve\<close> function found there.
\<close>

definition link_resolver_at ::
  "(string \<rightharpoonup> (string \<rightharpoonup> ('x, 'a, 'c, 'i, 'r) link_resolver)) \<Rightarrow> string \<Rightarrow> string
    \<Rightarrow> ('x, 'a, 'c, 'i, 'r) link_resolver option" where
  "link_resolver_at rs typeName field =
     (case rs typeName of None \<Rightarrow> None | Some byField \<Rightarrow> byField field)"

definition resolve_field ::
  "(string \<rightharpoonup> (string \<rightharpoonup> ('x, 'a, 'c, 'i, 'r) link_resolver)) \<Rightarrow> string \<Rightarrow> string
    \<Rightarrow> 'x \<Rightarrow> 'a \<Rightarrow> 'c \<Rightarrow> 'i \<Rightarrow> 'r option" where
  "resolve_field rs typeName field parent a c i =
     (case link_resolver_at rs typeName field of
        None \<Rightarrow> None
      | Some r \<Rightarrow> Some (resolve r parent a c i))"

text \<open>
  \<open>createNewSchema\<close> (lines 97-103). The object literal passed to \<open>mergeSchemas\<close> is
  evaluated left to right, so \<open>schemas.concat(linkTypeDefs)\<close> comes first: on \<open>undefined\<close>
  it throws a TypeError and neither \<open>createLinkResolvers\<close> nor \<open>mergeSchemas\<close> is
  reached. \<open>mergeSchemas\<close> (graphql-tools) is a parameter that returns the unified schema
  or throws. The local constant \<open>schemas\<close> is \<open>schemas'\<close> again; \<open>schema\<close> and \<open>server\<close>
  of \<open>runServer\<close> are \<open>schema'\<close> and \<open>server'\<close>.
\<close>

definition createNewSchema ::
  "(('p, 'x, 'a, 'c, 'i, 'r) merge_options \<Rightarrow> 'e error + 'u)
    \<Rightarrow> ('i \<Rightarrow> ('p, 'a, 'c, 'i) delegate_options \<Rightarrow> 'r)
    \<Rightarrow> ('s remote_options \<Rightarrow> 'e error + 'p)
    \<Rightarrow> (http_link \<Rightarrow> nat \<Rightarrow> http_link list \<Rightarrow> ('e, 's) promise) \<Rightarrow> string option list
    \<Rightarrow> ('e, 'u) process \<Rightarrow> ('e, 'u) promise \<times> ('e, 'u) process" where
  "createNewSchema mergeSchemas delegateToSchema makeRemoteExecutableSchema introspectSchema uris st =
     (case createRemoteExecutableSchemas makeRemoteExecutableSchema introspectSchema uris st of
        (p, st') \<Rightarrow>
          (case await p of
             Inl e \<Rightarrow> (Rejected e, st')
           | Inr None \<Rightarrow> (Rejected (TypeError ''concat''), st')
           | Inr (Some schemas') \<Rightarrow>
               (async (mergeSchemas
                  \<lparr>schemas = map Schema schemas' @ [TypeDefs linkTypeDefs],
                   resolvers = createLinkResolvers delegateToSchema schemas'\<rparr>), st')))"

text \<open>
  \<open>runServer\<close> (lines 109-121). \<open>listen server port\<close> stands for \<open>server.listen({port})\<close>
  and returns a promise of the URL; its \<open>then\<close> callback logs the URL. That promise is
  neither awaited nor returned, so \<open>runServer\<close> is fulfilled whatever becomes of it.
\<close>

definition runServer ::
  "('u apollo_server \<Rightarrow> string option \<Rightarrow> ('e, string) promise)
    \<Rightarrow> (('p, 'x, 'a, 'c, 'i, 'r) merge_options \<Rightarrow> 'e error + 'u)
    \<Rightarrow> ('i \<Rightarrow> ('p, 'a, 'c, 'i) delegate_options \<Rightarrow> 'r)
    \<Rightarrow> ('s remote_options \<Rightarrow> 'e error + 'p)
    \<Rightarrow> (http_link \<Rightarrow> nat \<Rightarrow> http_link list \<Rightarrow> ('e, 's) promise)
    \<Rightarrow> (string \<rightharpoonup> string) \<Rightarrow> ('e, 'u) process \<Rightarrow> ('e, unit) promise \<times> ('e, 'u) process" where
  "runServer listen mergeSchemas delegateToSchema makeRemoteExecutableSchema introspectSchema env st =
     (case createNewSchema mergeSchemas delegateToSchema makeRemoteExecutableSchema
             introspectSchema (REMOTE_SCHEMA_URIS env) st of
        (p, st1) \<Rightarrow>
          (case await p of
             Inl e \<Rightarrow> (Rejected e, st1)
           | Inr schema' \<Rightarrow>
               (let server' = ApolloServer
                      \<lparr>server_options.schema = schema',
                       introspection = True,
                       playground = False\<rparr>;
                    st2 = st1\<lparr>server := Some server'\<rparr>
                in (Fulfilled (),
                    case listen server' (env ''PORT'') of
                      Fulfilled url \<Rightarrow>
                        st2\<lparr>stdout := stdout st2 @ [''Eagles soaring high at '' @ url],
                            listening := Some url\<rparr>
                    | Rejected e \<Rightarrow> st2))))"

text \<open>
  The top level (lines 123-127): \<open>try { runServer() } catch (err) { console.error(err) }\<close>.
  \<open>call_async\<close> is the completion of a call of an async function: such a call always
  returns normally and its value is the promise, also when the body threw. The promise
  is dropped here; the handler runs when the call itself throws.
\<close>

definition call_async :: "('e, 'a) promise \<times> 'st \<Rightarrow> ('e error + ('e, 'a) promise) \<times> 'st" where
  "call_async r = (Inr (fst r), snd r)"

definition main ::
  "('u apollo_server \<Rightarrow> string option \<Rightarrow> ('e, string) promise)
    \<Rightarrow> (('p, 'x, 'a, 'c, 'i, 'r) merge_options \<Rightarrow> 'e error + 'u)
    \<Rightarrow> ('i \<Rightarrow> ('p, 'a, 'c, 'i) delegate_options \<Rightarrow> 'r)
    \<Rightarrow> ('s remote_options \<Rightarrow> 'e error + 'p)
    \<Rightarrow> (http_link \<Rightarrow> nat \<Rightarrow> http_link list \<Rightarrow> ('e, 's) promise)
    \<Rightarrow> (string \<rightharpoonup> string) \<Rightarrow> ('e, 'u) process" where
  "main listen mergeSchemas delegateToSchema makeRemoteExecutableSchema introspectSchema env =
     (case call_async (runServer listen mergeSchemas delegateToSchema makeRemoteExecutableSchema
                         introspectSchema env initial) of
        (Inr _, st) \<Rightarrow> st
      | (Inl err, st) \<Rightarrow> st\<lparr>stderr := stderr st @ [err]\<rparr>)"

section \<open>Arrays and promises\<close>

lemma map_from_length: "length (map_from f k xs) = length xs"
  by (induction xs arbitrary: k) simp_all

lemma map_from_nth: "i < length xs \<Longrightarrow> map_from f k xs ! i = f (xs ! i) (k + i)"
proof (induction xs arbitrary: k i)
  case Nil
  then show ?case by simp
next
  case (Cons x xs)
  then show ?case by (cases i) simp_all
qed

lemma map_js_length: "length (map_js f xs) = length xs"
  by (simp add: map_js_def map_from_length)

lemma map_js_nth: "i < length xs \<Longrightarrow> map_js f xs ! i = f (xs ! i) i xs"
  by (simp add: map_js_def map_from_nth)

lemma promise_all_rejects:
  "Rejected e \<in> set ps \<Longrightarrow> \<exists>e'. promise_all ps = Rejected e'"
proof (induction ps rule: promise_all.induct)
  case 1
  then show ?case by simp
next
  case (2 e' ps)
  then show ?case by simp
next
  case (3 v ps)
  then show ?case by (auto split: promise.splits)
qed

lemma promise_all_fulfils:
  "promise_all (map Fulfilled vs) = Fulfilled vs"
  by (induction vs) simp_all

lemma promise_all_rejected_only:
  "promise_all ps = Rejected e \<Longrightarrow> Rejected e \<in> set ps"
  by (induction ps rule: promise_all.induct) (auto split: promise.splits)

lemma promise_all_fulfilled_only:
  "promise_all ps = Fulfilled vs \<Longrightarrow> ps = map Fulfilled vs"
  by (induction ps arbitrary: vs rule: promise_all.induct) (auto split: promise.splits)

lemma all_returned_throws:
  "Inl e \<in> set rs \<Longrightarrow> \<exists>e'. all_returned rs = Inl e'"
  by (induction rs rule: all_returned.induct) (auto split: sum.splits)

lemma all_returned_returns:
  "all_returned (map Inr vs) = Inr vs"
  by (induction vs) simp_all

lemma all_returned_thrown_only:
  "all_returned rs = Inl e \<Longrightarrow> Inl e \<in> set rs"
  by (induction rs rule: all_returned.induct) (auto split: sum.splits)

section \<open>Configuration\<close>

text \<open>
  C6. The list of upstream URIs has three entries: the value of GRAPHQL_CART_SERVICE_URI
  at index 0, of GRAPHQL_CHECKOUT_SERVICE_URI at index 1 and of GRAPHQL_USER_SERVICE_URI at
  index 2 (each \<open>undefined\<close> when the variable is not set), and no index beyond.
\<close>

theorem remote_schema_uris_positions:
  "length (REMOTE_SCHEMA_URIS env) = 3 \<and>
   REMOTE_SCHEMA_URIS env ! 0 = env ''GRAPHQL_CART_SERVICE_URI'' \<and>
   REMOTE_SCHEMA_URIS env ! 1 = env ''GRAPHQL_CHECKOUT_SERVICE_URI'' \<and>
   REMOTE_SCHEMA_URIS env ! 2 = env ''GRAPHQL_USER_SERVICE_URI'' \<and>
   js_nth (REMOTE_SCHEMA_URIS env) 0 = Some (env ''GRAPHQL_CART_SERVICE_URI'') \<and>
   js_nth (REMOTE_SCHEMA_URIS env) 1 = Some (env ''GRAPHQL_CHECKOUT_SERVICE_URI'') \<and>
   js_nth (REMOTE_SCHEMA_URIS env) 2 = Some (env ''GRAPHQL_USER_SERVICE_URI'')"
  by (simp add: REMOTE_SCHEMA_URIS_def js_nth_def)

section \<open>The remote schema loader\<close>

text \<open>
  The two local arrays have one entry per URI, and entry \<open>i\<close> is built from URI \<open>i\<close>
  alone: the link from the URI, the promise from the introspection of that link.
\<close>

lemma links_length: "length (links uris) = length uris"
  by (simp add: links_def)

lemma links_nth:
  "i < length uris \<Longrightarrow> links uris ! i = HttpLink \<lparr>uri = uris ! i, fetch = NodeFetch\<rparr>"
  by (simp add: links_def)

lemma remoteSchemaPromises_length:
  "length (remoteSchemaPromises introspectSchema uris) = length uris"
  by (simp add: remoteSchemaPromises_def map_js_length links_length)

lemma remoteSchemaPromises_nth:
  "i < length uris \<Longrightarrow>
   remoteSchemaPromises introspectSchema uris ! i = introspectSchema (links uris ! i) i (links uris)"
  by (simp add: remoteSchemaPromises_def map_js_nth links_length)

lemma some_rejected_iff:
  "(\<exists>e. Rejected e \<in> set (remoteSchemaPromises introspectSchema uris)) \<longleftrightarrow>
   (\<exists>j<length uris. \<exists>e. introspectSchema (links uris ! j) j (links uris) = Rejected e)"
proof
  assume "\<exists>e. Rejected e \<in> set (remoteSchemaPromises introspectSchema uris)"
  then obtain e j where "j < length (remoteSchemaPromises introspectSchema uris)"
    and "remoteSchemaPromises introspectSchema uris ! j = Rejected e"
    by (auto simp: in_set_conv_nth)
  then show "\<exists>j<length uris. \<exists>e. introspectSchema (links uris ! j) j (links uris) = Rejected e"
    by (auto simp: remoteSchemaPromises_length remoteSchemaPromises_nth)
next
  assume "\<exists>j<length uris. \<exists>e. introspectSchema (links uris ! j) j (links uris) = Rejected e"
  then obtain j e where j: "j < length uris"
    and "introspectSchema (links uris ! j) j (links uris) = Rejected e"
    by blast
  then have "remoteSchemaPromises introspectSchema uris ! j = Rejected e"
    by (simp add: remoteSchemaPromises_nth)
  with j have "Rejected e \<in> set (remoteSchemaPromises introspectSchema uris)"
    by (metis nth_mem remoteSchemaPromises_length)
  then show "\<exists>e. Rejected e \<in> set (remoteSchemaPromises introspectSchema uris)" ..
qed

text \<open>
  Entry \<open>j\<close> of the array mapped in the \<open>return\<close> expression is the call of
  \<open>makeRemoteExecutableSchema\<close> on introspected schema \<open>j\<close> and link \<open>j\<close>.
\<close>

lemma wrapped_length:
  "length (map_js (\<lambda>schema index _. makeRemoteExecutableSchema
            \<lparr>remote_options.schema = schema, link = js_nth (links uris) index\<rparr>) remoteSchemas) =
   length remoteSchemas"
  by (simp add: map_js_length)

lemma wrapped_nth:
  assumes "length remoteSchemas = length uris" and "j < length uris"
  shows "map_js (\<lambda>schema index _. makeRemoteExecutableSchema
            \<lparr>remote_options.schema = schema, link = js_nth (links uris) index\<rparr>) remoteSchemas ! j =
         makeRemoteExecutableSchema
            \<lparr>remote_options.schema = remoteSchemas ! j,
             link = Some (HttpLink \<lparr>uri = uris ! j, fetch = NodeFetch\<rparr>)\<rparr>"
  using assms by (simp add: map_js_nth js_nth_def links_length links_nth)

text \<open>
  The three ways through the body: a rejected introspection and a throwing
  \<open>makeRemoteExecutableSchema\<close> both end in the \<open>catch\<close> block, which logs its one line
  and returns \<open>undefined\<close>; otherwise the array is returned and nothing is logged.
\<close>

lemma catch_taken:
  assumes "Rejected e \<in> set (remoteSchemaPromises introspectSchema uris)"
  shows "createRemoteExecutableSchemas makeRemoteExecutableSchema introspectSchema uris st =
           (Fulfilled None,
            st\<lparr>stdout := stdout st @ [''Error creating remote executable schemas'']\<rparr>)"
proof -
  obtain e' where "promise_all (remoteSchemaPromises introspectSchema uris) = Rejected e'"
    using promise_all_rejects [OF assms] ..
  then show ?thesis
    by (simp add: createRemoteExecutableSchemas_def)
qed

lemma catch_taken_by_wrapper:
  assumes "remoteSchemaPromises introspectSchema uris = map Fulfilled remoteSchemas"
    and "Inl e \<in> set (map_js (\<lambda>schema index _. makeRemoteExecutableSchema
            \<lparr>remote_options.schema = schema, link = js_nth (links uris) index\<rparr>) remoteSchemas)"
  shows "createRemoteExecutableSchemas makeRemoteExecutableSchema introspectSchema uris st =
           (Fulfilled None,
            st\<lparr>stdout := stdout st @ [''Error creating remote executable schemas'']\<rparr>)"
proof -
  obtain e' where "all_returned (map_js (\<lambda>schema index _. makeRemoteExecutableSchema
            \<lparr>remote_options.schema = schema, link = js_nth (links uris) index\<rparr>) remoteSchemas) =
          Inl e'"
    using all_returned_throws [OF assms(2)] ..
  then show ?thesis
    by (simp add: createRemoteExecutableSchemas_def assms(1) promise_all_fulfils)
qed

lemma array_returned:
  assumes "remoteSchemaPromises introspectSchema uris = map Fulfilled remoteSchemas"
    and "map_js (\<lambda>schema index _. makeRemoteExecutableSchema
            \<lparr>remote_options.schema = schema, link = js_nth (links uris) index\<rparr>) remoteSchemas =
         map Inr proxies"
  shows "createRemoteExecutableSchemas makeRemoteExecutableSchema introspectSchema uris st =
           (Fulfilled (Some proxies), st)"
  by (simp add: createRemoteExecutableSchemas_def assms promise_all_fulfils all_returned_returns)

lemma createRemoteExecutableSchemas_frame:
  "stderr (snd (createRemoteExecutableSchemas makeRemoteExecutableSchema introspectSchema uris st)) =
     stderr st \<and>
   server (snd (createRemoteExecutableSchemas makeRemoteExecutableSchema introspectSchema uris st)) =
     server st \<and>
   listening (snd (createRemoteExecutableSchemas makeRemoteExecutableSchema introspectSchema uris st)) =
     listening st"
  by (simp add: createRemoteExecutableSchemas_def split: sum.splits)

text \<open>
  The \<open>catch\<close> block runs exactly when, for some upstream, the introspection is rejected
  or the schema it is fulfilled with makes \<open>makeRemoteExecutableSchema\<close> throw.
\<close>

lemma undefined_iff:
  "fst (createRemoteExecutableSchemas makeRemoteExecutableSchema introspectSchema uris st) =
     Fulfilled None \<longleftrightarrow>
   (\<exists>j<length uris.
      (\<exists>e. introspectSchema (links uris ! j) j (links uris) = Rejected e) \<or>
      (\<exists>v e. introspectSchema (links uris ! j) j (links uris) = Fulfilled v \<and>
             makeRemoteExecutableSchema
               \<lparr>remote_options.schema = v,
                link = Some (HttpLink \<lparr>uri = uris ! j, fetch = NodeFetch\<rparr>)\<rparr> = Inl e))"
  (is "?L \<longleftrightarrow> ?R")
proof (cases "promise_all (remoteSchemaPromises introspectSchema uris)")
  case (Rejected e)
  then have mem: "Rejected e \<in> set (remoteSchemaPromises introspectSchema uris)"
    by (rule promise_all_rejected_only)
  then have l: ?L
    by (simp add: catch_taken)
  from mem have "\<exists>e. Rejected e \<in> set (remoteSchemaPromises introspectSchema uris)" ..
  then have "\<exists>j<length uris. \<exists>e. introspectSchema (links uris ! j) j (links uris) = Rejected e"
    by (simp only: some_rejected_iff)
  then have ?R by blast
  with l show ?thesis by simp
next
  case (Fulfilled vs)
  then have ps: "remoteSchemaPromises introspectSchema uris = map Fulfilled vs"
    by (rule promise_all_fulfilled_only)
  then have len: "length vs = length uris"
    by (metis length_map remoteSchemaPromises_length)
  have intro: "introspectSchema (links uris ! j) j (links uris) = Fulfilled (vs ! j)"
    if "j < length uris" for j
    using that ps len remoteSchemaPromises_nth [of j uris introspectSchema] by simp
  let ?calls = "map_js (\<lambda>schema index _. makeRemoteExecutableSchema
            \<lparr>remote_options.schema = schema, link = js_nth (links uris) index\<rparr>) vs"
  show ?thesis
  proof
    assume ?L
    then obtain e where "all_returned ?calls = Inl e"
      by (auto simp: createRemoteExecutableSchemas_def Fulfilled split: sum.splits)
    then have "Inl e \<in> set ?calls"
      by (rule all_returned_thrown_only)
    then obtain j where "j < length ?calls" and "?calls ! j = Inl e"
      by (auto simp: in_set_conv_nth)
    then have j: "j < length uris"
      and "makeRemoteExecutableSchema
               \<lparr>remote_options.schema = vs ! j,
                link = Some (HttpLink \<lparr>uri = uris ! j, fetch = NodeFetch\<rparr>)\<rparr> = Inl e"
      using wrapped_nth [OF len, of j makeRemoteExecutableSchema] by (simp_all add: wrapped_length len)
    with intro [OF j] show ?R by blast
  next
    assume ?R
    then obtain j where j: "j < length uris"
      and c: "(\<exists>e. introspectSchema (links uris ! j) j (links uris) = Rejected e) \<or>
         (\<exists>v e. introspectSchema (links uris ! j) j (links uris) = Fulfilled v \<and>
             makeRemoteExecutableSchema
               \<lparr>remote_options.schema = v,
                link = Some (HttpLink \<lparr>uri = uris ! j, fetch = NodeFetch\<rparr>)\<rparr> = Inl e)"
      by blast
    with intro [OF j] obtain e where "makeRemoteExecutableSchema
               \<lparr>remote_options.schema = vs ! j,
                link = Some (HttpLink \<lparr>uri = uris ! j, fetch = NodeFetch\<rparr>)\<rparr> = Inl e"
      by auto
    then have "?calls ! j = Inl e"
      using wrapped_nth [OF len j, of makeRemoteExecutableSchema] by simp
    with j have "Inl e \<in> set ?calls"
      by (metis nth_mem wrapped_length len)
    then show ?L
      by (simp add: catch_taken_by_wrapper [OF ps])
  qed
qed

text \<open>When every promise is fulfilled the \<open>return\<close> expression of the \<open>try\<close> block is reached.\<close>

lemma all_fulfilled:
  assumes "\<And>i. i < length uris \<Longrightarrow>
             introspectSchema (links uris ! i) i (links uris) = Fulfilled (remote i)"
  shows "remoteSchemaPromises introspectSchema uris = map Fulfilled (map remote [0..<length uris])"
  by (rule nth_equalityI) (simp_all add: remoteSchemaPromises_length remoteSchemaPromises_nth assms)

text \<open>
  C2. If the introspection of any one upstream is rejected (upstream \<open>i\<close>, whatever the
  others and \<open>makeRemoteExecutableSchema\<close> do), \<open>createRemoteExecutableSchemas\<close> catches it, writes the fixed line
  ``Error creating remote executable schemas'' to the console and nothing else, and is
  fulfilled with \<open>undefined\<close>; it is never fulfilled with a list, partial or not.
\<close>

theorem introspection_failure_returns_undefined:
  assumes "i < length uris"
    and "introspectSchema (links uris ! i) i (links uris) = Rejected e"
  shows "createRemoteExecutableSchemas makeRemoteExecutableSchema introspectSchema uris st =
           (Fulfilled None,
            st\<lparr>stdout := stdout st @ [''Error creating remote executable schemas'']\<rparr>) \<and>
         (\<forall>partial.
            fst (createRemoteExecutableSchemas makeRemoteExecutableSchema introspectSchema uris st)
              \<noteq> Fulfilled (Some partial))"
proof -
  from assms have "\<exists>e. Rejected e \<in> set (remoteSchemaPromises introspectSchema uris)"
    unfolding some_rejected_iff by blast
  then obtain e' where "Rejected e' \<in> set (remoteSchemaPromises introspectSchema uris)" ..
  then show ?thesis
    by (simp add: catch_taken)
qed

theorem introspection_failure_returns_undefined_witness:
  "(1::nat) < length [Some ''http://cart/graphql'', Some ''http://checkout/graphql'', Some ''http://user/graphql''] \<and>
   (if (1::nat) = 1 then Rejected (Failure ''ECONNREFUSED'') else Fulfilled ''introspected'')
     = (Rejected (Failure ''ECONNREFUSED'') :: (string, string) promise) \<and>
   createRemoteExecutableSchemas
      (\<lambda>opts. Inr opts :: string error + string remote_options)
      (\<lambda>l i ls. if i = 1 then Rejected (Failure ''ECONNREFUSED'') else Fulfilled ''introspected''
         :: (string, string) promise)
      [Some ''http://cart/graphql'', Some ''http://checkout/graphql'', Some ''http://user/graphql'']
      (initial :: (string, unit) process) =
     (Fulfilled None,
      \<lparr>stdout = [''Error creating remote executable schemas''], stderr = [],
       server = None, listening = None\<rparr>)"
  using introspection_failure_returns_undefined
    [of 1 "[Some ''http://cart/graphql'', Some ''http://checkout/graphql'', Some ''http://user/graphql'']"
        "\<lambda>l i ls. if i = 1 then Rejected (Failure ''ECONNREFUSED'') else Fulfilled ''introspected''
           :: (string, string) promise"
        "Failure ''ECONNREFUSED''"
        "\<lambda>opts. Inr opts :: string error + string remote_options"
        "initial :: (string, unit) process"]
  by (simp add: initial_def)

text \<open>
  C4, as the code has it. The claim holds where, besides every introspection being
  fulfilled (with \<open>remote i\<close> for upstream \<open>i\<close>), every call of
  \<open>makeRemoteExecutableSchema\<close> returns (\<open>proxy i\<close> for the schema introspected from
  upstream \<open>i\<close> and the HTTP link constructed from URI \<open>i\<close>): then
  \<open>createRemoteExecutableSchemas\<close> logs nothing and is fulfilled with the list of these
  proxy schemas, as many as there are URIs and in their order.
\<close>

theorem all_introspected_and_wrapped_returns_proxies_in_order:
  assumes "\<And>i. i < length uris \<Longrightarrow>
             introspectSchema (links uris ! i) i (links uris) = Fulfilled (remote i)"
    and "\<And>i. i < length uris \<Longrightarrow>
             makeRemoteExecutableSchema
               \<lparr>remote_options.schema = remote i,
                link = Some (HttpLink \<lparr>uri = uris ! i, fetch = NodeFetch\<rparr>)\<rparr> = Inr (proxy i)"
  shows "createRemoteExecutableSchemas makeRemoteExecutableSchema introspectSchema uris st =
           (Fulfilled (Some (map proxy [0..<length uris])), st)"
proof -
  have ps: "remoteSchemaPromises introspectSchema uris =
          map Fulfilled (map remote [0..<length uris])"
    using all_fulfilled [of uris introspectSchema remote] assms(1) by simp
  have "map_js (\<lambda>schema index _. makeRemoteExecutableSchema
            \<lparr>remote_options.schema = schema, link = js_nth (links uris) index\<rparr>)
            (map remote [0..<length uris]) =
         map Inr (map proxy [0..<length uris])"
    by (rule nth_equalityI) (simp_all add: wrapped_length wrapped_nth assms(2))
  with ps show ?thesis
    by (rule array_returned)
qed

theorem all_introspected_and_wrapped_returns_proxies_in_order_witness:
  "createRemoteExecutableSchemas
      (\<lambda>opts. Inr (''proxy of'', opts) :: unit error + string \<times> (string \<times> http_link) remote_options)
      (\<lambda>l i ls. Fulfilled (''schema of'', l) :: (unit, string \<times> http_link) promise)
      [Some ''http://cart/graphql'', None]
      (initial :: (unit, unit) process) =
     (Fulfilled (Some
        [(''proxy of'',
           \<lparr>remote_options.schema =
              (''schema of'', HttpLink \<lparr>uri = Some ''http://cart/graphql'', fetch = NodeFetch\<rparr>),
            link = Some (HttpLink \<lparr>uri = Some ''http://cart/graphql'', fetch = NodeFetch\<rparr>)\<rparr>),
         (''proxy of'',
           \<lparr>remote_options.schema = (''schema of'', HttpLink \<lparr>uri = None, fetch = NodeFetch\<rparr>),
            link = Some (HttpLink \<lparr>uri = None, fetch = NodeFetch\<rparr>)\<rparr>)]),
      initial)"
  using all_introspected_and_wrapped_returns_proxies_in_order
    [of "[Some ''http://cart/graphql'', None]"
        "\<lambda>l i ls. Fulfilled (''schema of'', l)"
        "\<lambda>i. (''schema of'', links [Some ''http://cart/graphql'', None] ! i)"
        "\<lambda>opts. Inr (''proxy of'', opts)"
        "\<lambda>i. (''proxy of'',
           \<lparr>remote_options.schema = (''schema of'', links [Some ''http://cart/graphql'', None] ! i),
            link = Some (links [Some ''http://cart/graphql'', None] ! i)\<rparr>)"
        "initial :: (unit, unit) process"]
  by (simp add: links_def upt_rec nth_Cons')

text \<open>
  C4 as it is written fails: with the introspection of every upstream fulfilled, a
  \<open>makeRemoteExecutableSchema\<close> that throws inside the \<open>return\<close> expression is caught by
  the same \<open>try\<close>, and the function logs its line and is fulfilled with \<open>undefined\<close>, not
  with a list.
\<close>

theorem all_introspected_wrapper_throws_counterexample:
  "remoteSchemaPromises
      (\<lambda>l i ls. Fulfilled ''introspected'' :: (string, string) promise)
      [Some ''http://cart/graphql'', Some ''http://checkout/graphql'', Some ''http://user/graphql''] =
     [Fulfilled ''introspected'', Fulfilled ''introspected'', Fulfilled ''introspected''] \<and>
   createRemoteExecutableSchemas
      (\<lambda>opts. Inl (Failure ''cannot wrap'') :: string error + unit)
      (\<lambda>l i ls. Fulfilled ''introspected'' :: (string, string) promise)
      [Some ''http://cart/graphql'', Some ''http://checkout/graphql'', Some ''http://user/graphql'']
      (initial :: (string, unit) process) =
     (Fulfilled None,
      \<lparr>stdout = [''Error creating remote executable schemas''], stderr = [],
       server = None, listening = None\<rparr>)"
  by (simp add: createRemoteExecutableSchemas_def remoteSchemaPromises_def map_js_def links_def
      initial_def)

text \<open>
  C10. \<open>createRemoteExecutableSchemas\<close> does not validate its input. Where URI \<open>i\<close> is
  \<open>undefined\<close> or the empty string, the list of links is built all the same, with one link
  per URI; link \<open>i\<close> is the HTTP link bound to that very value; the introspection request
  for it is issued over that link; and the function ends in its error branch (fulfilled
  with \<open>undefined\<close>) exactly when, for some upstream, the introspection is rejected or the
  schema it is fulfilled with makes \<open>makeRemoteExecutableSchema\<close> throw. Both come with
  or after the network call to that upstream: no error is raised for the missing
  configuration before it.
\<close>

theorem undefined_uri_not_validated:
  assumes "i < length uris"
    and "uris ! i = None \<or> uris ! i = Some ''''"
  shows "length (links uris) = length uris \<and>
         links uris ! i = HttpLink \<lparr>uri = uris ! i, fetch = NodeFetch\<rparr> \<and>
         remoteSchemaPromises introspectSchema uris ! i =
           introspectSchema (HttpLink \<lparr>uri = uris ! i, fetch = NodeFetch\<rparr>) i (links uris) \<and>
         (fst (createRemoteExecutableSchemas makeRemoteExecutableSchema introspectSchema uris st) =
            Fulfilled None \<longleftrightarrow>
          (\<exists>j<length uris.
             (\<exists>e. introspectSchema (links uris ! j) j (links uris) = Rejected e) \<or>
             (\<exists>v e. introspectSchema (links uris ! j) j (links uris) = Fulfilled v \<and>
                    makeRemoteExecutableSchema
                      \<lparr>remote_options.schema = v,
                       link = Some (HttpLink \<lparr>uri = uris ! j, fetch = NodeFetch\<rparr>)\<rparr> = Inl e)))"
proof -
  note undefined_iff [of makeRemoteExecutableSchema introspectSchema uris st]
  with assms(1) show ?thesis
    by (simp add: links_length links_nth remoteSchemaPromises_nth)
qed

theorem undefined_uri_not_validated_witness:
  "(0::nat) < length [None, Some '''', Some ''http://user/graphql''] \<and>
   ([None, Some '''', Some ''http://user/graphql''] ! 0 = None \<or>
    [None, Some '''', Some ''http://user/graphql''] ! 0 = Some '''') \<and>
   links [None, Some '''', Some ''http://user/graphql''] ! 0 = HttpLink \<lparr>uri = None, fetch = NodeFetch\<rparr> \<and>
   remoteSchemaPromises (\<lambda>l i ls. Fulfilled l :: (unit, http_link) promise)
       [None, Some '''', Some ''http://user/graphql''] ! 0 =
     Fulfilled (HttpLink \<lparr>uri = None, fetch = NodeFetch\<rparr>) \<and>
   fst (createRemoteExecutableSchemas
       (\<lambda>opts. Inr opts :: unit error + http_link remote_options)
       (\<lambda>l i ls. Fulfilled l :: (unit, http_link) promise)
       [None, Some '''', Some ''http://user/graphql''] (initial :: (unit, unit) process))
     \<noteq> Fulfilled None"
  using undefined_uri_not_validated
    [of 0 "[None, Some '''', Some ''http://user/graphql'']"
        "\<lambda>l i ls. Fulfilled l :: (unit, http_link) promise"
        "\<lambda>opts. Inr opts :: unit error + http_link remote_options"
        "initial :: (unit, unit) process"]
  by (simp add: less_Suc_eq)

section \<open>The link resolvers\<close>

text \<open>The two entries of the resolver map, as \<open>createLinkResolvers\<close> builds them.\<close>

lemma cart_resolver:
  "link_resolver_at (createLinkResolvers delegateToSchema schemas') ''User'' ''cart'' =
     Some \<lparr>fragment = ''... on User { id }'',
           resolve = (\<lambda>_ a c i. delegateToSchema i
             \<lparr>delegate_options.schema = js_nth schemas' 0, operation = ''query'',
              fieldName = ''cartForCurrentUser'', args = a, context' = c, info = i\<rparr>)\<rparr>"
  by (simp add: link_resolver_at_def createLinkResolvers_def)

lemma orders_resolver:
  "link_resolver_at (createLinkResolvers delegateToSchema schemas') ''User'' ''orders'' =
     Some \<lparr>fragment = ''... on User { id }'',
           resolve = (\<lambda>_ a c i. delegateToSchema i
             \<lparr>delegate_options.schema = js_nth schemas' 1, operation = ''query'',
              fieldName = ''ordersForCurrentCustomer'', args = a, context' = c, info = i\<rparr>)\<rparr>"
  by (simp add: link_resolver_at_def createLinkResolvers_def)

text \<open>
  C1. For every list of proxy schemas, resolving \<open>User.cart\<close> through the map built by
  \<open>createLinkResolvers\<close> is one call of \<open>delegateToSchema\<close> with operation \<open>query\<close>,
  field name \<open>cartForCurrentUser\<close> and the schema \<open>schemas[0]\<close>; resolving \<open>User.orders\<close>
  is one with operation \<open>query\<close>, field name \<open>ordersForCurrentCustomer\<close> and the schema
  \<open>schemas[1]\<close>. On a list of two schemas or more these are its first and its second
  entry (on a shorter one, \<open>undefined\<close>, as the array read gives).
\<close>

theorem link_resolvers_positional:
  "resolve_field (createLinkResolvers delegateToSchema schemas') ''User'' ''cart'' parent a c i =
     Some (delegateToSchema i
       \<lparr>delegate_options.schema = js_nth schemas' 0, operation = ''query'',
        fieldName = ''cartForCurrentUser'', args = a, context' = c, info = i\<rparr>) \<and>
   resolve_field (createLinkResolvers delegateToSchema schemas') ''User'' ''orders'' parent a c i =
     Some (delegateToSchema i
       \<lparr>delegate_options.schema = js_nth schemas' 1, operation = ''query'',
        fieldName = ''ordersForCurrentCustomer'', args = a, context' = c, info = i\<rparr>) \<and>
   resolve_field (createLinkResolvers delegateToSchema (s0 # s1 # rest)) ''User'' ''cart'' parent a c i =
     Some (delegateToSchema i
       \<lparr>delegate_options.schema = Some s0, operation = ''query'',
        fieldName = ''cartForCurrentUser'', args = a, context' = c, info = i\<rparr>) \<and>
   resolve_field (createLinkResolvers delegateToSchema (s0 # s1 # rest)) ''User'' ''orders'' parent a c i =
     Some (delegateToSchema i
       \<lparr>delegate_options.schema = Some s1, operation = ''query'',
        fieldName = ''ordersForCurrentCustomer'', args = a, context' = c, info = i\<rparr>)"
  by (simp add: resolve_field_def cart_resolver orders_resolver js_nth_def)

text \<open>
  C5. The options object that a link resolver hands to \<open>delegateToSchema\<close> (read off with
  a delegate that returns its options) carries the field arguments, the request context and
  the resolution info the resolver was called with, and the resolver returns what the
  delegate returns for that object, as it is. This holds for every delegate and every type
  of result, so also for one whose answer changes from call to call: the resolver keeps
  nothing between calls and puts nothing in place of the delegate's answer.
\<close>

theorem link_resolvers_forward_unchanged:
  "resolve_field (createLinkResolvers delegateToSchema schemas') ''User'' ''cart'' parent a c i =
     map_option (delegateToSchema i)
       (resolve_field (createLinkResolvers (\<lambda>_ opts. opts) schemas') ''User'' ''cart'' parent a c i) \<and>
   resolve_field (createLinkResolvers delegateToSchema schemas') ''User'' ''orders'' parent a c i =
     map_option (delegateToSchema i)
       (resolve_field (createLinkResolvers (\<lambda>_ opts. opts) schemas') ''User'' ''orders'' parent a c i) \<and>
   map_option (\<lambda>opts. (args opts, context' opts, info opts))
       (resolve_field (createLinkResolvers (\<lambda>_ opts. opts) schemas') ''User'' ''cart'' parent a c i) =
     Some (a, c, i) \<and>
   map_option (\<lambda>opts. (args opts, context' opts, info opts))
       (resolve_field (createLinkResolvers (\<lambda>_ opts. opts) schemas') ''User'' ''orders'' parent a c i) =
     Some (a, c, i)"
  by (simp add: resolve_field_def cart_resolver orders_resolver)

text \<open>
  C8. Both link resolvers declare the fragment \<open>... on User { id }\<close> and nothing else as
  what they need of the parent; and on a parent object that carries the field \<open>id\<close> alone
  each of them runs through to its delegation and returns the delegate's answer.
\<close>

theorem link_resolvers_fragment_id_only:
  "map_option fragment
       (link_resolver_at (createLinkResolvers delegateToSchema schemas') ''User'' ''cart'') =
     Some ''... on User { id }'' \<and>
   map_option fragment
       (link_resolver_at (createLinkResolvers delegateToSchema schemas') ''User'' ''orders'') =
     Some ''... on User { id }'' \<and>
   resolve_field (createLinkResolvers delegateToSchema schemas') ''User'' ''cart''
       [''id'' \<mapsto> userId] a c i =
     Some (delegateToSchema i
       \<lparr>delegate_options.schema = js_nth schemas' 0, operation = ''query'',
        fieldName = ''cartForCurrentUser'', args = a, context' = c, info = i\<rparr>) \<and>
   resolve_field (createLinkResolvers delegateToSchema schemas') ''User'' ''orders''
       [''id'' \<mapsto> userId] a c i =
     Some (delegateToSchema i
       \<lparr>delegate_options.schema = js_nth schemas' 1, operation = ''query'',
        fieldName = ''ordersForCurrentCustomer'', args = a, context' = c, info = i\<rparr>)"
  by (simp add: resolve_field_def cart_resolver orders_resolver)

text \<open>
  C9. The parent object does not influence the delegation. For any two parents, with the
  same arguments, context and info, each resolver returns the same result under every
  delegate; in particular the call it issues (the info whose \<open>delegateToSchema\<close> is called
  and the options passed, read off with a delegate that returns both) is the same.
\<close>

theorem link_resolvers_ignore_parent:
  "resolve_field (createLinkResolvers delegateToSchema schemas') ''User'' ''cart'' parent1 a c i =
     resolve_field (createLinkResolvers delegateToSchema schemas') ''User'' ''cart'' parent2 a c i \<and>
   resolve_field (createLinkResolvers delegateToSchema schemas') ''User'' ''orders'' parent1 a c i =
     resolve_field (createLinkResolvers delegateToSchema schemas') ''User'' ''orders'' parent2 a c i \<and>
   resolve_field (createLinkResolvers (\<lambda>info opts. (info, opts)) schemas') ''User'' ''cart'' parent1 a c i =
     resolve_field (createLinkResolvers (\<lambda>info opts. (info, opts)) schemas') ''User'' ''cart'' parent2 a c i \<and>
   resolve_field (createLinkResolvers (\<lambda>info opts. (info, opts)) schemas') ''User'' ''orders'' parent1 a c i =
     resolve_field (createLinkResolvers (\<lambda>info opts. (info, opts)) schemas') ''User'' ''orders'' parent2 a c i"
  by (simp add: resolve_field_def cart_resolver orders_resolver)

section \<open>Startup\<close>

text \<open>
  C7. Whenever \<open>createNewSchema\<close> is fulfilled with a unified schema, \<open>runServer\<close>
  constructs the server from that schema with \<open>introspection: true\<close> and
  \<open>playground: false\<close>.
\<close>

theorem server_options_introspection_on_playground_off:
  assumes "createNewSchema mergeSchemas delegateToSchema makeRemoteExecutableSchema
             introspectSchema (REMOTE_SCHEMA_URIS env) st = (Fulfilled unified, st')"
  shows "server (snd (runServer listen mergeSchemas delegateToSchema makeRemoteExecutableSchema
                        introspectSchema env st)) =
           Some (ApolloServer
             \<lparr>server_options.schema = unified, introspection = True, playground = False\<rparr>)"
  using assms
  by (simp add: runServer_def Let_def split: promise.splits)

theorem server_options_introspection_on_playground_off_witness:
  "createNewSchema
      (\<lambda>opts :: (string remote_options, unit, unit, unit, unit, unit) merge_options.
         Inr ''unified'' :: unit error + string)
      (\<lambda>i opts. ())
      (\<lambda>opts. Inr opts)
      (\<lambda>l i ls. Fulfilled ''introspected'')
      (REMOTE_SCHEMA_URIS
         [''GRAPHQL_CART_SERVICE_URI'' \<mapsto> ''http://cart/graphql'',
          ''GRAPHQL_CHECKOUT_SERVICE_URI'' \<mapsto> ''http://checkout/graphql'',
          ''GRAPHQL_USER_SERVICE_URI'' \<mapsto> ''http://user/graphql'',
          ''PORT'' \<mapsto> ''4000''])
      initial = (Fulfilled ''unified'', initial) \<and>
   server (snd (runServer
      (\<lambda>srv port. Fulfilled ''http://localhost:4000/'')
      (\<lambda>opts :: (string remote_options, unit, unit, unit, unit, unit) merge_options.
         Inr ''unified'' :: unit error + string)
      (\<lambda>i opts. ())
      (\<lambda>opts. Inr opts)
      (\<lambda>l i ls. Fulfilled ''introspected'')
      [''GRAPHQL_CART_SERVICE_URI'' \<mapsto> ''http://cart/graphql'',
       ''GRAPHQL_CHECKOUT_SERVICE_URI'' \<mapsto> ''http://checkout/graphql'',
       ''GRAPHQL_USER_SERVICE_URI'' \<mapsto> ''http://user/graphql'',
       ''PORT'' \<mapsto> ''4000'']
      initial)) =
     Some (ApolloServer
       \<lparr>server_options.schema = ''unified'', introspection = True, playground = False\<rparr>)"
proof -
  have h: "createNewSchema
      (\<lambda>opts :: (string remote_options, unit, unit, unit, unit, unit) merge_options.
         Inr ''unified'' :: unit error + string)
      (\<lambda>i opts. ())
      (\<lambda>opts. Inr opts)
      (\<lambda>l i ls. Fulfilled ''introspected'')
      (REMOTE_SCHEMA_URIS
         [''GRAPHQL_CART_SERVICE_URI'' \<mapsto> ''http://cart/graphql'',
          ''GRAPHQL_CHECKOUT_SERVICE_URI'' \<mapsto> ''http://checkout/graphql'',
          ''GRAPHQL_USER_SERVICE_URI'' \<mapsto> ''http://user/graphql'',
          ''PORT'' \<mapsto> ''4000''])
      initial = (Fulfilled ''unified'', initial)"
    by (simp add: createNewSchema_def createRemoteExecutableSchemas_def remoteSchemaPromises_def
        map_js_def links_def REMOTE_SCHEMA_URIS_def)
  show ?thesis
    using h server_options_introspection_on_playground_off [OF h] by simp
qed

text \<open>
  The call \<open>runServer()\<close> inside the top-level \<open>try\<close> returns the promise and never
  throws, so the process ends in the state \<open>runServer\<close> leaves, and neither \<open>runServer\<close>
  nor the top level has written anything with \<open>console.error\<close>.
\<close>

lemma main_never_runs_handler:
  "main listen mergeSchemas delegateToSchema makeRemoteExecutableSchema introspectSchema env =
     snd (runServer listen mergeSchemas delegateToSchema makeRemoteExecutableSchema
            introspectSchema env initial)"
  by (simp add: main_def call_async_def)

lemma createNewSchema_stderr:
  "stderr (snd (createNewSchema mergeSchemas delegateToSchema makeRemoteExecutableSchema
                  introspectSchema uris st)) = stderr st"
  using createRemoteExecutableSchemas_frame [of makeRemoteExecutableSchema introspectSchema uris st]
  by (auto simp: createNewSchema_def split: prod.splits sum.splits option.splits)

lemma runServer_stderr:
  "stderr (snd (runServer listen mergeSchemas delegateToSchema makeRemoteExecutableSchema
                  introspectSchema env st)) = stderr st"
  using createNewSchema_stderr [of mergeSchemas delegateToSchema makeRemoteExecutableSchema
          introspectSchema "REMOTE_SCHEMA_URIS env" st]
  by (auto simp: runServer_def Let_def split: prod.splits sum.splits promise.splits)

lemma main_stderr_empty:
  "stderr (main listen mergeSchemas delegateToSchema makeRemoteExecutableSchema introspectSchema env) = []"
  by (simp add: main_never_runs_handler runServer_stderr initial_def)

text \<open>
  C3, where the code departs from the claim. Two startups with the three URIs set. In the
  first the introspection of the cart upstream is rejected: the loader logs its line and
  returns \<open>undefined\<close>, \<open>schemas.concat\<close> in \<open>createNewSchema\<close> throws a TypeError, and
  the promise of \<open>runServer\<close> is rejected with it. In the second every introspection
  succeeds and \<open>mergeSchemas\<close> throws: the promise of \<open>runServer\<close> is rejected with the
  merge error. In both the server is never constructed and never listens, as the claim
  says; but the error stays in the rejected promise, which the top level drops: its
  \<open>catch\<close> block does not run and nothing is written to standard error by the program.
\<close>

theorem startup_error_skips_top_level_handler:
  "runServer
      (\<lambda>srv port. Fulfilled ''http://localhost:4000/'')
      (\<lambda>opts :: (string remote_options, unit, unit, unit, unit, unit) merge_options.
         Inr ''unified'' :: string error + string)
      (\<lambda>i opts. ())
      (\<lambda>opts. Inr opts)
      (\<lambda>l i ls. if i = 0 then Rejected (Failure ''ECONNREFUSED'') else Fulfilled ''introspected'')
      [''GRAPHQL_CART_SERVICE_URI'' \<mapsto> ''http://cart/graphql'',
       ''GRAPHQL_CHECKOUT_SERVICE_URI'' \<mapsto> ''http://checkout/graphql'',
       ''GRAPHQL_USER_SERVICE_URI'' \<mapsto> ''http://user/graphql'',
       ''PORT'' \<mapsto> ''4000'']
      initial =
     (Rejected (TypeError ''concat''),
      \<lparr>stdout = [''Error creating remote executable schemas''], stderr = [],
       server = None, listening = None\<rparr>) \<and>
   main
      (\<lambda>srv port. Fulfilled ''http://localhost:4000/'')
      (\<lambda>opts :: (string remote_options, unit, unit, unit, unit, unit) merge_options.
         Inr ''unified'' :: string error + string)
      (\<lambda>i opts. ())
      (\<lambda>opts. Inr opts)
      (\<lambda>l i ls. if i = 0 then Rejected (Failure ''ECONNREFUSED'') else Fulfilled ''introspected'')
      [''GRAPHQL_CART_SERVICE_URI'' \<mapsto> ''http://cart/graphql'',
       ''GRAPHQL_CHECKOUT_SERVICE_URI'' \<mapsto> ''http://checkout/graphql'',
       ''GRAPHQL_USER_SERVICE_URI'' \<mapsto> ''http://user/graphql'',
       ''PORT'' \<mapsto> ''4000''] =
     \<lparr>stdout = [''Error creating remote executable schemas''], stderr = [],
      server = None, listening = None\<rparr> \<and>
   runServer
      (\<lambda>srv port. Fulfilled ''http://localhost:4000/'')
      (\<lambda>opts :: (string remote_options, unit, unit, unit, unit, unit) merge_options.
         Inl (Failure ''merge failed'') :: string error + string)
      (\<lambda>i opts. ())
      (\<lambda>opts. Inr opts)
      (\<lambda>l i ls. Fulfilled ''introspected'')
      [''GRAPHQL_CART_SERVICE_URI'' \<mapsto> ''http://cart/graphql'',
       ''GRAPHQL_CHECKOUT_SERVICE_URI'' \<mapsto> ''http://checkout/graphql'',
       ''GRAPHQL_USER_SERVICE_URI'' \<mapsto> ''http://user/graphql'',
       ''PORT'' \<mapsto> ''4000'']
      initial =
     (Rejected (Failure ''merge failed''),
      \<lparr>stdout = [], stderr = [], server = None, listening = None\<rparr>) \<and>
   main
      (\<lambda>srv port. Fulfilled ''http://localhost:4000/'')
      (\<lambda>opts :: (string remote_options, unit, unit, unit, unit, unit) merge_options.
         Inl (Failure ''merge failed'') :: string error + string)
      (\<lambda>i opts. ())
      (\<lambda>opts. Inr opts)
      (\<lambda>l i ls. Fulfilled ''introspected'')
      [''GRAPHQL_CART_SERVICE_URI'' \<mapsto> ''http://cart/graphql'',
       ''GRAPHQL_CHECKOUT_SERVICE_URI'' \<mapsto> ''http://checkout/graphql'',
       ''GRAPHQL_USER_SERVICE_URI'' \<mapsto> ''http://user/graphql'',
       ''PORT'' \<mapsto> ''4000''] =
     \<lparr>stdout = [], stderr = [], server = None, listening = None\<rparr>"
  by (simp add: main_def call_async_def runServer_def createNewSchema_def
      createRemoteExecutableSchemas_def remoteSchemaPromises_def map_js_def links_def
      REMOTE_SCHEMA_URIS_def initial_def)

end
